theory Spec2Isabelle
  imports Main
begin

section \<open>Election lookup by id or reference (app/crud.py)\<close>

text \<open>
  The SQLAlchemy model \<open>models.Election\<close> is used by \<open>get_election\<close> through its two
  columns \<open>id\<close> and \<open>ref\<close> only. Both are compared with the same argument
  \<open>election_id\<close>, so one type \<open>'k\<close> stands for the values of both columns. The remaining
  columns live in the extension part of the record.
\<close>

record 'k models_Election =
  id_col :: 'k
  ref :: 'k

text \<open>The two exceptions of \<open>errors\<close> raised by \<open>get_election\<close>: the table name, and for the
  inconsistency the column whose values collide (the message of the source names it).\<close>

datatype column = Id_column | Ref_column

datatype error =
    InconsistentDatabaseError string column
  | NotFoundError string

text \<open>
  A query object of SQLAlchemy is lazy: \<open>db.query(..).filter(..)\<close> sends nothing, while
  \<open>count()\<close> and \<open>first()\<close> each send one statement. The session is the table together with
  the statements sent so far, oldest first.
\<close>

datatype statement = Count column | First column

record 'k Session =
  table :: "'k models_Election list"
  issued :: "statement list"

fun column_value :: "column \<Rightarrow> 'k models_Election \<Rightarrow> 'k" where
  "column_value Id_column e = id_col e"
| "column_value Ref_column e = ref e"

definition filter_rows :: "column \<Rightarrow> 'k \<Rightarrow> 'k models_Election list \<Rightarrow> 'k models_Election list" where
  "filter_rows c election_id rows = filter (\<lambda>e. column_value c e = election_id) rows"

definition count_query :: "column \<Rightarrow> 'k \<Rightarrow> 'k Session \<Rightarrow> nat \<times> 'k Session" where
  "count_query c election_id db =
     (length (filter_rows c election_id (table db)), db\<lparr>issued := issued db @ [Count c]\<rparr>)"

text \<open>\<open>first()\<close> is \<open>None\<close> on an empty result.\<close>

definition first_query :: "column \<Rightarrow> 'k \<Rightarrow> 'k Session \<Rightarrow> 'k models_Election option \<times> 'k Session" where
  "first_query c election_id db =
     ((case filter_rows c election_id (table db) of [] \<Rightarrow> None | e # _ \<Rightarrow> Some e),
      db\<lparr>issued := issued db @ [First c]\<rparr>)"

text \<open>The column that a statement reads.\<close>

fun statement_column :: "statement \<Rightarrow> column" where
  "statement_column (Count c) = c"
| "statement_column (First c) = c"

text \<open>\<open>get_election\<close>, statement by statement. A raise is \<open>Inl\<close>, a return is \<open>Inr\<close> of what
  \<open>first()\<close> gave.\<close>

definition get_election ::
  "'k Session \<Rightarrow> 'k \<Rightarrow> (error + 'k models_Election option) \<times> 'k Session" where
  "get_election db election_id =
     (let (n1, db1) = count_query Id_column election_id db in
      if n1 > 1 then
        (Inl (InconsistentDatabaseError ''elections'' Id_column), db1)
      else
        let (n2, db2) = count_query Id_column election_id db1 in
        if n2 = 1 then
          (let (e, db3) = first_query Id_column election_id db2 in (Inr e, db3))
        else
          let (m1, db3) = count_query Ref_column election_id db2 in
          if m1 > 1 then
            (Inl (InconsistentDatabaseError ''elections'' Ref_column), db3)
          else
            let (m2, db4) = count_query Ref_column election_id db3 in
            if m2 = 1 then
              (let (e, db5) = first_query Ref_column election_id db4 in (Inr e, db5))
            else
              (Inl (NotFoundError ''elections''), db4))"


section \<open>The Django views (election/views.py)\<close>

subsection \<open>Rows, tables and the object manager\<close>

text \<open>
  The models of \<open>election.models\<close> with the fields that the views read. An election is
  addressed by the string \<open>pk\<close> of the URL, a token by its character primary key, and the
  foreign keys hold the primary key of the election. Timestamps are whole seconds.
\<close>

record Election =
  id_pk :: string
  candidates :: "string list"
  num_grades :: int
  start_at :: int
  finish_at :: int
  on_invitation_only :: bool
  restrict_results :: bool

record Token =
  token_id :: string
  token_election :: string
  email :: string
  used :: bool

record Vote =
  vote_election :: string
  grades_by_candidate :: "int list"

record database =
  elections :: "Election list"
  tokens :: "Token list"
  votes :: "Vote list"

text \<open>Exceptions of Django and of Python that the views meet. \<open>LibraryError\<close> stands for
  whatever a function of \<open>libs.majority_judgment\<close> raises.\<close>

datatype exn =
    DoesNotExist
  | MultipleObjectsReturned
  | IntegrityError
  | IndexError
  | LibraryError

text \<open>\<open>Model.objects.get(..)\<close>: the one row that satisfies the lookup, \<open>DoesNotExist\<close> when
  there is none, \<open>MultipleObjectsReturned\<close> when there are several.\<close>

definition objects_get :: "('a \<Rightarrow> bool) \<Rightarrow> 'a list \<Rightarrow> exn + 'a" where
  "objects_get lookup rows =
     (case filter lookup rows of
        [] \<Rightarrow> Inl DoesNotExist
      | [x] \<Rightarrow> Inr x
      | _ # _ # _ \<Rightarrow> Inl MultipleObjectsReturned)"

text \<open>\<open>instance.save()\<close> of a token: the rows with its primary key are updated, and a row
  is inserted when there was none.\<close>

definition save_token :: "Token \<Rightarrow> database \<Rightarrow> database" where
  "save_token t db =
     (if token_id t \<in> set (map token_id (tokens db))
      then db\<lparr>tokens := map (\<lambda>r. if token_id r = token_id t then t else r) (tokens db)\<rparr>
      else db\<lparr>tokens := tokens db @ [t]\<rparr>)"

text \<open>The three lookups of the views: \<open>Election.objects.get(id=pk)\<close>,
  \<open>Token.objects.get(election=election, id=token)\<close> and
  \<open>Vote.objects.filter(election=election)\<close>.\<close>

definition Election_objects_get :: "database \<Rightarrow> string \<Rightarrow> exn + Election" where
  "Election_objects_get db pk = objects_get (\<lambda>e. id_pk e = pk) (elections db)"

definition Token_objects_get :: "database \<Rightarrow> Election \<Rightarrow> string \<Rightarrow> exn + Token" where
  "Token_objects_get db election token =
     objects_get (\<lambda>t. token_election t = id_pk election \<and> token_id t = token) (tokens db)"

definition Vote_objects_filter :: "database \<Rightarrow> Election \<Rightarrow> Vote list" where
  "Vote_objects_filter db election =
     filter (\<lambda>v. vote_election v = id_pk election) (votes db)"

subsection \<open>Responses\<close>

definition UNKNOWN_ELECTION_ERROR :: string where
  "UNKNOWN_ELECTION_ERROR = ''E1: Unknown election''"

definition ONGOING_ELECTION_ERROR :: string where
  "ONGOING_ELECTION_ERROR = ''E2: Ongoing election''"

definition NO_VOTE_ERROR :: string where
  "NO_VOTE_ERROR = ''E3: No recorded vote''"

definition ELECTION_NOT_STARTED_ERROR :: string where
  "ELECTION_NOT_STARTED_ERROR = ''E4: Election not started''"

definition ELECTION_FINISHED_ERROR :: string where
  "ELECTION_FINISHED_ERROR = ''E5: Election finished''"

definition INVITATION_ONLY_ERROR :: string where
  "INVITATION_ONLY_ERROR = ''E6: Election on invitation only, please provide token''"

definition UNKNOWN_TOKEN_ERROR :: string where
  "UNKNOWN_TOKEN_ERROR = ''E7: Wrong token''"

definition USED_TOKEN_ERROR :: string where
  "USED_TOKEN_ERROR = ''E8: Token already used''"

definition WRONG_ELECTION_ERROR :: string where
  "WRONG_ELECTION_ERROR = ''E9: Parameters for the election are incorrect''"

definition HTTP_200_OK :: nat where
  "HTTP_200_OK = 200"

definition HTTP_201_CREATED :: nat where
  "HTTP_201_CREATED = 201"

definition HTTP_400_BAD_REQUEST :: nat where
  "HTTP_400_BAD_REQUEST = 400"

definition HTTP_401_UNAUTHORIZED :: nat where
  "HTTP_401_UNAUTHORIZED = 401"

text \<open>A merit profile is a \<open>Dict[Grade, int]\<close>, kept as the list of its items. A
  \<open>serializers.Candidate\<close> is built from a name, an index, a profile and a grade.\<close>

type_synonym profile = "(int \<times> int) list"

datatype Candidate = Candidate string int profile int

text \<open>The body of a response: one of the error strings, the serialized election, the
  serialized candidates, or nothing.\<close>

datatype body =
    Message string
  | ElectionView Election
  | CandidateList "Candidate list"
  | NoBody

datatype Response = Response body nat

text \<open>A view either returns a response or lets an exception escape.\<close>

type_synonym outcome = "exn + Response"

subsection \<open>Election details\<close>

text \<open>\<open>ElectionDetailsAPIView.get\<close>; \<open>now\<close> is the value of \<open>round(time())\<close>.\<close>

definition ElectionDetailsAPIView_get :: "database \<Rightarrow> int \<Rightarrow> string \<Rightarrow> outcome" where
  "ElectionDetailsAPIView_get db now pk =
     (case Election_objects_get db pk of
        Inl x \<Rightarrow>
          if x = DoesNotExist
          then Inr (Response (Message UNKNOWN_ELECTION_ERROR) HTTP_400_BAD_REQUEST)
          else Inl x
      | Inr election \<Rightarrow>
          if now < start_at election
          then Inr (Response (Message ELECTION_NOT_STARTED_ERROR) HTTP_401_UNAUTHORIZED)
          else Inr (Response (ElectionView election) HTTP_200_OK))"

subsection \<open>Casting a vote\<close>

text \<open>\<open>serializer.validated_data\<close> after \<open>is_valid\<close>: the election instance, the token
  identifier when the request carried one, and the grades.\<close>

record validated_data =
  data_election :: Election
  data_token :: "string option"
  data_grades_by_candidate :: "int list"

text \<open>
  Modelled from the spec: \<open>VoteSerializer.create\<close> and the constraints of the \<open>Vote\<close>
  table are not part of the sources. \<open>perform_create\<close> is the vote store's
  \<open>append_vote(election_id, grade_vector)\<close>: it appends one row holding the election and
  the grades, with no trace of the voter. The condition under which the insert is refused with
  \<open>IntegrityError\<close> is the parameter \<open>integrity\<close>.
\<close>

definition perform_create ::
  "(Election \<Rightarrow> int list \<Rightarrow> bool) \<Rightarrow> validated_data \<Rightarrow> database \<Rightarrow> exn + database" where
  "perform_create integrity data db =
     (if integrity (data_election data) (data_grades_by_candidate data)
      then Inr (db\<lparr>votes := votes db @
             [\<lparr>vote_election = id_pk (data_election data),
               grades_by_candidate = data_grades_by_candidate data\<rparr>]\<rparr>)
      else Inl IntegrityError)"

text \<open>The integrity error that the comment of line 155 names: the number of mentions
  differs from the number of candidates.\<close>

definition mentions_match_candidates :: "Election \<Rightarrow> int list \<Rightarrow> bool" where
  "mentions_match_candidates election gs = (length gs = length (candidates election))"

text \<open>Lines 155 to 165 of \<open>VoteAPIView.create\<close>: the insert inside \<open>try\<close>, and the two
  responses. Another exception than \<open>IntegrityError\<close> escapes.\<close>

definition create_vote ::
  "(Election \<Rightarrow> int list \<Rightarrow> bool) \<Rightarrow> validated_data \<Rightarrow> database \<Rightarrow> outcome \<times> database" where
  "create_vote integrity data db =
     (case perform_create integrity data db of
        Inl x \<Rightarrow>
          if x = IntegrityError
          then (Inr (Response (Message WRONG_ELECTION_ERROR) HTTP_400_BAD_REQUEST), db)
          else (Inl x, db)
      | Inr db' \<Rightarrow> (Inr (Response NoBody HTTP_201_CREATED), db'))"

text \<open>\<open>VoteAPIView.create\<close> from line 119 on; \<open>now\<close> is the value of \<open>round(time())\<close>. The
  result is the outcome of the request and the database it leaves.\<close>

definition VoteAPIView_create ::
  "(Election \<Rightarrow> int list \<Rightarrow> bool) \<Rightarrow> database \<Rightarrow> int \<Rightarrow> validated_data \<Rightarrow> outcome \<times> database" where
  "VoteAPIView_create integrity db now data =
     (let election = data_election data in
      if now \<ge> finish_at election then
        (Inr (Response (Message ELECTION_FINISHED_ERROR) HTTP_401_UNAUTHORIZED), db)
      else if on_invitation_only election then
        (case data_token data of
           None \<Rightarrow> (Inr (Response (Message INVITATION_ONLY_ERROR) HTTP_400_BAD_REQUEST), db)
         | Some token \<Rightarrow>
             (case Token_objects_get db election token of
                Inl x \<Rightarrow>
                  if x = DoesNotExist
                  then (Inr (Response (Message UNKNOWN_TOKEN_ERROR) HTTP_400_BAD_REQUEST), db)
                  else (Inl x, db)
              | Inr token_object \<Rightarrow>
                  if used token_object
                  then (Inr (Response (Message USED_TOKEN_ERROR) HTTP_400_BAD_REQUEST), db)
                  else create_vote integrity data
                         (save_token (token_object\<lparr>used := True\<rparr>) db)))
      else create_vote integrity data db)"

subsection \<open>Results\<close>

text \<open>
  The module \<open>libs.majority_judgment\<close> is not part of the sources: its three functions and
  the \<open>grade\<close> attribute of a majority value are parameters, and each function may raise.
\<close>

record 'v majority_judgment =
  votes_to_merit_profiles :: "int list list \<Rightarrow> int list \<Rightarrow> exn + profile list"
  MajorityValue :: "profile \<Rightarrow> exn + 'v"
  sort_by_value_with_index :: "'v list \<Rightarrow> exn + (int \<times> 'v) list"
  grade :: "'v \<Rightarrow> int"

text \<open>A list comprehension whose body may raise stops at the first exception.\<close>

fun comprehension :: "('a \<Rightarrow> exn + 'b) \<Rightarrow> 'a list \<Rightarrow> exn + 'b list" where
  "comprehension f [] = Inr []"
| "comprehension f (x # xs) =
     (case f x of
        Inl e \<Rightarrow> Inl e
      | Inr y \<Rightarrow> (case comprehension f xs of Inl e \<Rightarrow> Inl e | Inr ys \<Rightarrow> Inr (y # ys)))"

text \<open>\<open>xs[i]\<close> of Python: a negative index counts from the end, and an index outside the
  list raises \<open>IndexError\<close>.\<close>

definition subscript :: "'a list \<Rightarrow> int \<Rightarrow> exn + 'a" where
  "subscript xs i =
     (if 0 \<le> i \<and> i < int (length xs) then Inr (xs ! nat i)
      else if - int (length xs) \<le> i \<and> i < 0 then Inr (xs ! nat (int (length xs) + i))
      else Inl IndexError)"

text \<open>\<open>range(n)\<close> as the list of its elements.\<close>

definition range_list :: "int \<Rightarrow> int list" where
  "range_list n = [0..n - 1]"

text \<open>Lines 202 to 223 of \<open>ResultAPIView.get\<close>: the tally of a non-empty list of votes and
  the response built from it. The \<open>print\<close> of line 210 is left out.\<close>

definition tally :: "'v majority_judgment \<Rightarrow> Election \<Rightarrow> int list list \<Rightarrow> outcome" where
  "tally mj election vs =
     (case votes_to_merit_profiles mj vs (range_list (num_grades election)) of
        Inl x \<Rightarrow> Inl x
      | Inr merit_profiles \<Rightarrow>
     (case comprehension (MajorityValue mj) merit_profiles of
        Inl x \<Rightarrow> Inl x
      | Inr values \<Rightarrow>
     (case sort_by_value_with_index mj values of
        Inl x \<Rightarrow> Inl x
      | Inr indexed_values \<Rightarrow>
     (case comprehension
             (\<lambda>(idx, v).
                case subscript (candidates election) idx of
                  Inl x \<Rightarrow> Inl x
                | Inr name \<Rightarrow>
                    (case subscript merit_profiles idx of
                       Inl x \<Rightarrow> Inl x
                     | Inr profil \<Rightarrow> Inr (Candidate name idx profil (grade mj v))))
             indexed_values of
        Inl x \<Rightarrow> Inl x
      | Inr cs \<Rightarrow> Inr (Response (CandidateList cs) HTTP_200_OK)))))"

text \<open>\<open>ResultAPIView.get\<close>; \<open>now\<close> is the value of \<open>round(time())\<close>.\<close>

definition ResultAPIView_get ::
  "'v majority_judgment \<Rightarrow> database \<Rightarrow> int \<Rightarrow> string \<Rightarrow> outcome" where
  "ResultAPIView_get mj db now pk =
     (case Election_objects_get db pk of
        Inl x \<Rightarrow>
          if x = DoesNotExist
          then Inr (Response (Message UNKNOWN_ELECTION_ERROR) HTTP_400_BAD_REQUEST)
          else if x = IntegrityError
          then Inr (Response (Message WRONG_ELECTION_ERROR) HTTP_400_BAD_REQUEST)
          else Inl x
      | Inr election \<Rightarrow>
          if restrict_results election \<and> now < finish_at election
          then Inr (Response (Message ONGOING_ELECTION_ERROR) HTTP_400_BAD_REQUEST)
          else
            let vs = Vote_objects_filter db election in
            if length vs = 0
            then Inr (Response (Message NO_VOTE_ERROR) HTTP_400_BAD_REQUEST)
            else tally mj election (map grades_by_candidate vs))"


text \<open>A library of which every function raises: with it, a request that reaches the
  tally lets \<open>LibraryError\<close> escape.\<close>

definition failing_library :: "unit majority_judgment" where
  "failing_library =
     \<lparr>votes_to_merit_profiles = (\<lambda>vs gs. Inl LibraryError),
      MajorityValue = (\<lambda>p. Inl LibraryError),
      sort_by_value_with_index = (\<lambda>vs. Inl LibraryError),
      grade = (\<lambda>v. 0)\<rparr>"


section \<open>Properties of the election lookup\<close>

text \<open>The value of \<open>get_election\<close> and the statements it sends, branch by branch.\<close>

lemma get_election_fst:
  "fst (get_election db k) =
     (if 1 < length (filter_rows Id_column k (table db))
      then Inl (InconsistentDatabaseError ''elections'' Id_column)
      else if length (filter_rows Id_column k (table db)) = 1
      then Inr (Some (hd (filter_rows Id_column k (table db))))
      else if 1 < length (filter_rows Ref_column k (table db))
      then Inl (InconsistentDatabaseError ''elections'' Ref_column)
      else if length (filter_rows Ref_column k (table db)) = 1
      then Inr (Some (hd (filter_rows Ref_column k (table db))))
      else Inl (NotFoundError ''elections''))"
  by (auto simp: get_election_def count_query_def first_query_def Let_def
           split: list.splits)

lemma get_election_snd:
  "snd (get_election db k) =
     db\<lparr>issued := issued db @
       (if 1 < length (filter_rows Id_column k (table db))
        then [Count Id_column]
        else if length (filter_rows Id_column k (table db)) = 1
        then [Count Id_column, Count Id_column, First Id_column]
        else if 1 < length (filter_rows Ref_column k (table db))
        then [Count Id_column, Count Id_column, Count Ref_column]
        else if length (filter_rows Ref_column k (table db)) = 1
        then [Count Id_column, Count Id_column, Count Ref_column, Count Ref_column,
              First Ref_column]
        else [Count Id_column, Count Id_column, Count Ref_column, Count Ref_column])\<rparr>"
  by (auto simp: get_election_def count_query_def first_query_def Let_def)

lemma length_one_iff: "length xs = Suc 0 \<longleftrightarrow> (\<exists>x. xs = [x])"
  by (cases xs) auto

text \<open>
  Claim C4, as stated, fails. With the rows \<open>(id 1, ref 5)\<close> and \<open>(id 2, ref 1)\<close> the
  identifier \<open>1\<close> matches two records, the first by id and the second by ref, and
  \<open>get_election\<close> returns the first instead of raising the inconsistency error.
\<close>

theorem get_election_favours_id:
  "filter_rows Id_column (1::int)
     [\<lparr>id_col = 1, ref = 5\<rparr>, \<lparr>id_col = 2, ref = 1\<rparr>] = [\<lparr>id_col = 1, ref = 5\<rparr>] \<and>
   filter_rows Ref_column (1::int)
     [\<lparr>id_col = 1, ref = 5\<rparr>, \<lparr>id_col = 2, ref = 1\<rparr>] = [\<lparr>id_col = 2, ref = 1\<rparr>] \<and>
   fst (get_election
          \<lparr>table = [\<lparr>id_col = 1, ref = 5\<rparr>, \<lparr>id_col = 2, ref = 1\<rparr>], issued = []\<rparr> (1::int))
     = Inr (Some \<lparr>id_col = 1, ref = 5\<rparr>)"
  by (simp add: get_election_def count_query_def first_query_def filter_rows_def)

text \<open>
  Claim C4, amended: \<open>get_election\<close> looks at the id column first and at the ref column
  only when no row matches by id. It raises the inconsistency error exactly when several
  rows match by id, or none matches by id and several match by ref; it raises the not-found
  error exactly when no row matches by id or by ref; and it returns a row \<open>e\<close> exactly when
  \<open>e\<close> is the only match by id, or nothing matches by id and \<open>e\<close> is the only match by ref.
  It never returns \<open>None\<close>.
\<close>

theorem get_election_id_first:
  "(fst (get_election db k) = Inl (InconsistentDatabaseError ''elections'' Id_column)
      \<longleftrightarrow> 1 < length (filter_rows Id_column k (table db))) \<and>
   (fst (get_election db k) = Inl (InconsistentDatabaseError ''elections'' Ref_column)
      \<longleftrightarrow> filter_rows Id_column k (table db) = [] \<and>
          1 < length (filter_rows Ref_column k (table db))) \<and>
   (fst (get_election db k) = Inl (NotFoundError ''elections'')
      \<longleftrightarrow> filter_rows Id_column k (table db) = [] \<and>
          filter_rows Ref_column k (table db) = []) \<and>
   (fst (get_election db k) = Inr (Some e)
      \<longleftrightarrow> filter_rows Id_column k (table db) = [e] \<or>
          filter_rows Id_column k (table db) = [] \<and>
          filter_rows Ref_column k (table db) = [e]) \<and>
   fst (get_election db k) \<noteq> Inr None"
  unfolding get_election_fst
  by (cases "filter_rows Id_column k (table db)"; cases "filter_rows Ref_column k (table db)")
     (auto simp: length_one_iff)

theorem get_election_id_first_witness:
  "fst (get_election
          \<lparr>table = [\<lparr>id_col = 3, ref = 8\<rparr>, \<lparr>id_col = 4, ref = 9\<rparr>, \<lparr>id_col = 6, ref = 9\<rparr>],
           issued = []\<rparr> (9::int))
     = Inl (InconsistentDatabaseError ''elections'' Ref_column)"
  using get_election_id_first
    [of "\<lparr>table = [\<lparr>id_col = 3, ref = 8\<rparr>, \<lparr>id_col = 4, ref = 9\<rparr>, \<lparr>id_col = 6, ref = 9\<rparr>],
           issued = []\<rparr>" "9::int"]
  by (simp add: filter_rows_def)

text \<open>
  Claim C10: when exactly one row \<open>e\<close> matches the identifier by id, \<open>get_election\<close>
  returns \<open>e\<close> and none of the statements it sends reads the ref column; a statement on
  the ref column is sent only when no row matches by id. So a match by id wins over any
  match by ref.
\<close>

theorem get_election_id_precedence:
  "\<exists>sent. snd (get_election db k) = db\<lparr>issued := issued db @ sent\<rparr> \<and>
     (filter_rows Id_column k (table db) = [e] \<longrightarrow>
        fst (get_election db k) = Inr (Some e) \<and>
        Ref_column \<notin> statement_column ` set sent) \<and>
     (Ref_column \<in> statement_column ` set sent \<longrightarrow>
        filter_rows Id_column k (table db) = [])"
proof -
  let ?ids = "filter_rows Id_column k (table db)"
  let ?refs = "filter_rows Ref_column k (table db)"
  define sent where "sent =
    (if 1 < length ?ids then [Count Id_column]
     else if length ?ids = 1 then [Count Id_column, Count Id_column, First Id_column]
     else if 1 < length ?refs then [Count Id_column, Count Id_column, Count Ref_column]
     else if length ?refs = 1
     then [Count Id_column, Count Id_column, Count Ref_column, Count Ref_column,
           First Ref_column]
     else [Count Id_column, Count Id_column, Count Ref_column, Count Ref_column])"
  have log: "snd (get_election db k) = db\<lparr>issued := issued db @ sent\<rparr>"
    unfolding get_election_snd sent_def by simp
  have hit: "?ids = [e] \<longrightarrow>
      fst (get_election db k) = Inr (Some e) \<and> Ref_column \<notin> statement_column ` set sent"
    unfolding get_election_fst sent_def by simp
  have miss: "Ref_column \<in> statement_column ` set sent \<longrightarrow> ?ids = []"
    unfolding sent_def by (cases ?ids) (auto split: if_splits)
  from log hit miss show ?thesis by blast
qed

theorem get_election_id_precedence_witness:
  "get_election
     \<lparr>table = [\<lparr>id_col = 7, ref = 2\<rparr>, \<lparr>id_col = 2, ref = 7\<rparr>, \<lparr>id_col = 3, ref = 7\<rparr>],
      issued = []\<rparr> (7::int)
   = (Inr (Some \<lparr>id_col = 7, ref = 2\<rparr>),
      \<lparr>table = [\<lparr>id_col = 7, ref = 2\<rparr>, \<lparr>id_col = 2, ref = 7\<rparr>, \<lparr>id_col = 3, ref = 7\<rparr>],
       issued = [Count Id_column, Count Id_column, First Id_column]\<rparr>)"
  using get_election_id_precedence
    [of "\<lparr>table = [\<lparr>id_col = 7, ref = 2\<rparr>, \<lparr>id_col = 2, ref = 7\<rparr>, \<lparr>id_col = 3, ref = 7\<rparr>],
           issued = []\<rparr>" "7::int" "\<lparr>id_col = 7, ref = 2\<rparr>"]
  by (simp add: get_election_def count_query_def first_query_def filter_rows_def)


section \<open>Properties of the views\<close>

subsection \<open>Auxiliary facts\<close>

lemma tally_not_message: "tally mj election vs \<noteq> Inr (Response (Message m) s)"
  by (simp add: tally_def split: sum.splits)

lemma message_codes_distinct:
  "ONGOING_ELECTION_ERROR \<noteq> UNKNOWN_ELECTION_ERROR"
  "ONGOING_ELECTION_ERROR \<noteq> WRONG_ELECTION_ERROR"
  "ONGOING_ELECTION_ERROR \<noteq> NO_VOTE_ERROR"
  "NO_VOTE_ERROR \<noteq> ONGOING_ELECTION_ERROR"
  by (simp_all add: ONGOING_ELECTION_ERROR_def UNKNOWN_ELECTION_ERROR_def
        WRONG_ELECTION_ERROR_def NO_VOTE_ERROR_def)

lemma objects_get_none:
  "objects_get lookup rows = Inl DoesNotExist \<longleftrightarrow> (\<forall>r \<in> set rows. \<not> lookup r)"
proof -
  have "objects_get lookup rows = Inl DoesNotExist \<longleftrightarrow> filter lookup rows = []"
    by (simp add: objects_get_def split: list.splits)
  then show ?thesis by (simp add: filter_empty_conv)
qed

lemma save_token_votes: "votes (save_token t db) = votes db"
  by (simp add: save_token_def)

lemma save_token_member: "t \<in> set (tokens (save_token t db))"
  by (auto simp: save_token_def)


lemma create_vote_cases:
  "create_vote integrity data db =
     (if integrity (data_election data) (data_grades_by_candidate data)
      then (Inr (Response NoBody HTTP_201_CREATED),
            db\<lparr>votes := votes db @
              [\<lparr>vote_election = id_pk (data_election data),
                grades_by_candidate = data_grades_by_candidate data\<rparr>]\<rparr>)
      else (Inr (Response (Message WRONG_ELECTION_ERROR) HTTP_400_BAD_REQUEST), db))"
  by (simp add: create_vote_def perform_create_def)

lemma create_reaches_write:
  assumes "data_election data = election" and "now < finish_at election"
    and "on_invitation_only election" and "data_token data = Some token"
    and "Token_objects_get db election token = Inr token_object"
    and "\<not> used token_object"
  shows "VoteAPIView_create integrity db now data =
           create_vote integrity data (save_token (token_object\<lparr>used := True\<rparr>) db)"
  using assms by (simp add: VoteAPIView_create_def Let_def)

subsection \<open>Election details and results\<close>

text \<open>
  Claim C8: for a request on an existing election (the lookup by \<open>pk\<close> returns it), the
  answer is the error "election not started" exactly when the clock, as \<open>round(time())\<close>
  reads it, is before \<open>start_at\<close>; from \<open>start_at\<close> on the details are returned.
\<close>

theorem details_not_started:
  assumes "Election_objects_get db pk = Inr election"
  shows "(ElectionDetailsAPIView_get db now pk =
            Inr (Response (Message ELECTION_NOT_STARTED_ERROR) HTTP_401_UNAUTHORIZED)
          \<longleftrightarrow> now < start_at election) \<and>
         (start_at election \<le> now \<longrightarrow>
            ElectionDetailsAPIView_get db now pk =
              Inr (Response (ElectionView election) HTTP_200_OK))"
  using assms by (simp add: ElectionDetailsAPIView_get_def)

theorem details_not_started_witness:
  "ElectionDetailsAPIView_get
     \<lparr>elections =
        [\<lparr>id_pk = ''4'', candidates = [''A''], num_grades = 2, start_at = 100,
          finish_at = 200, on_invitation_only = False, restrict_results = False\<rparr>],
      tokens = [], votes = []\<rparr> 99 ''4''
   = Inr (Response (Message ELECTION_NOT_STARTED_ERROR) HTTP_401_UNAUTHORIZED)"
  using details_not_started
    [where db = "\<lparr>elections =
        [\<lparr>id_pk = ''4'', candidates = [''A''], num_grades = 2, start_at = 100,
          finish_at = 200, on_invitation_only = False, restrict_results = False\<rparr>],
      tokens = [], votes = []\<rparr>"
      and pk = "''4''" and now = 99
      and election = "\<lparr>id_pk = ''4'', candidates = [''A''], num_grades = 2, start_at = 100,
          finish_at = 200, on_invitation_only = False, restrict_results = False\<rparr>"]
  by (simp add: Election_objects_get_def objects_get_def)

text \<open>
  Claim C5: for a result request on an existing election with \<open>restrict_results\<close> set, the
  answer is the error "ongoing election" exactly when the clock, as \<open>round(time())\<close> reads
  it, is before \<open>finish_at\<close>; with \<open>restrict_results\<close> unset the answer is never that
  error, with any status, whatever the time, the votes and the tally.
\<close>

theorem result_visibility:
  assumes "Election_objects_get db pk = Inr election"
  shows "(restrict_results election \<longrightarrow>
            (ResultAPIView_get mj db now pk =
               Inr (Response (Message ONGOING_ELECTION_ERROR) HTTP_400_BAD_REQUEST)
             \<longleftrightarrow> now < finish_at election)) \<and>
         (\<not> restrict_results election \<longrightarrow>
            ResultAPIView_get mj db now pk \<noteq>
               Inr (Response (Message ONGOING_ELECTION_ERROR) status))"
  using assms
  by (auto simp: ResultAPIView_get_def Let_def tally_not_message message_codes_distinct)

theorem result_visibility_witness:
  "ResultAPIView_get failing_library
     \<lparr>elections =
        [\<lparr>id_pk = ''5'', candidates = [''A''], num_grades = 2, start_at = 100,
          finish_at = 200, on_invitation_only = False, restrict_results = True\<rparr>],
      tokens = [], votes = [\<lparr>vote_election = ''5'', grades_by_candidate = [1]\<rparr>]\<rparr> 199 ''5''
   = Inr (Response (Message ONGOING_ELECTION_ERROR) HTTP_400_BAD_REQUEST)"
  using result_visibility
    [where db = "\<lparr>elections =
        [\<lparr>id_pk = ''5'', candidates = [''A''], num_grades = 2, start_at = 100,
          finish_at = 200, on_invitation_only = False, restrict_results = True\<rparr>],
      tokens = [], votes = [\<lparr>vote_election = ''5'', grades_by_candidate = [1]\<rparr>]\<rparr>"
      and pk = "''5''" and now = 199 and mj = failing_library
      and election = "\<lparr>id_pk = ''5'', candidates = [''A''], num_grades = 2, start_at = 100,
          finish_at = 200, on_invitation_only = False, restrict_results = True\<rparr>"]
  by (simp add: Election_objects_get_def objects_get_def)

text \<open>
  Claim C6: for a result request that found its election and passed the visibility check,
  an election without votes gives the error "no recorded vote" with status 400, whatever the
  library is, even one whose functions all raise. The library can change the outcome only
  when there is at least one vote, and then the outcome is the tally of the recorded grades.
\<close>

theorem result_no_votes:
  assumes "Election_objects_get db pk = Inr election"
    and "\<not> (restrict_results election \<and> now < finish_at election)"
  shows "(Vote_objects_filter db election = [] \<longrightarrow>
            ResultAPIView_get mj db now pk =
              Inr (Response (Message NO_VOTE_ERROR) HTTP_400_BAD_REQUEST)) \<and>
         (ResultAPIView_get mj db now pk \<noteq> ResultAPIView_get mj' db now pk \<longrightarrow>
            Vote_objects_filter db election \<noteq> []) \<and>
         (Vote_objects_filter db election \<noteq> [] \<longrightarrow>
            ResultAPIView_get mj db now pk =
              tally mj election (map grades_by_candidate (Vote_objects_filter db election)))"
  using assms by (auto simp: ResultAPIView_get_def Let_def)

theorem result_no_votes_witness:
  "ResultAPIView_get failing_library
     \<lparr>elections =
        [\<lparr>id_pk = ''6'', candidates = [''A''], num_grades = 2, start_at = 100,
          finish_at = 200, on_invitation_only = False, restrict_results = False\<rparr>],
      tokens = [], votes = [\<lparr>vote_election = ''9'', grades_by_candidate = [1]\<rparr>]\<rparr> 250 ''6''
   = Inr (Response (Message NO_VOTE_ERROR) HTTP_400_BAD_REQUEST)"
  using result_no_votes
    [where db = "\<lparr>elections =
        [\<lparr>id_pk = ''6'', candidates = [''A''], num_grades = 2, start_at = 100,
          finish_at = 200, on_invitation_only = False, restrict_results = False\<rparr>],
      tokens = [], votes = [\<lparr>vote_election = ''9'', grades_by_candidate = [1]\<rparr>]\<rparr>"
      and pk = "''6''" and now = 250 and mj = failing_library and mj' = failing_library
      and election = "\<lparr>id_pk = ''6'', candidates = [''A''], num_grades = 2, start_at = 100,
          finish_at = 200, on_invitation_only = False, restrict_results = False\<rparr>"]
  by (simp add: Election_objects_get_def objects_get_def Vote_objects_filter_def)

subsection \<open>Casting a vote\<close>

text \<open>
  Claim C1 at a failing input. The election starts at 100 and ends at 200; a well-formed
  vote arrives at 50. \<open>VoteAPIView.create\<close> compares the clock with \<open>finish_at\<close> only, so
  the answer is 201 and the vote is recorded, where the claim asks for the error "election
  not started".
\<close>

theorem vote_before_start_is_accepted:
  "VoteAPIView_create mentions_match_candidates
     \<lparr>elections =
        [\<lparr>id_pk = ''1'', candidates = [''A'', ''B''], num_grades = 3, start_at = 100,
          finish_at = 200, on_invitation_only = False, restrict_results = False\<rparr>],
      tokens = [], votes = []\<rparr>
     50
     \<lparr>data_election =
        \<lparr>id_pk = ''1'', candidates = [''A'', ''B''], num_grades = 3, start_at = 100,
         finish_at = 200, on_invitation_only = False, restrict_results = False\<rparr>,
      data_token = None, data_grades_by_candidate = [2, 0]\<rparr>
   = (Inr (Response NoBody HTTP_201_CREATED),
      \<lparr>elections =
        [\<lparr>id_pk = ''1'', candidates = [''A'', ''B''], num_grades = 3, start_at = 100,
          finish_at = 200, on_invitation_only = False, restrict_results = False\<rparr>],
       tokens = [],
       votes = [\<lparr>vote_election = ''1'', grades_by_candidate = [2, 0]\<rparr>]\<rparr>)"
  by (simp add: VoteAPIView_create_def create_vote_def perform_create_def
        mentions_match_candidates_def)

text \<open>
  Claim C2, as stated, fails. An invited voter presents the unused token \<open>t\<close> with one
  mention for two candidates: the insert is refused, the answer is the error "parameters
  for the election are incorrect", no vote is recorded, and the token is left used.
\<close>

theorem failed_vote_consumes_token:
  "VoteAPIView_create mentions_match_candidates
     \<lparr>elections =
        [\<lparr>id_pk = ''1'', candidates = [''A'', ''B''], num_grades = 3, start_at = 100,
          finish_at = 200, on_invitation_only = True, restrict_results = False\<rparr>],
      tokens = [\<lparr>token_id = ''t'', token_election = ''1'', email = ''v@x.org'', used = False\<rparr>],
      votes = []\<rparr>
     150
     \<lparr>data_election =
        \<lparr>id_pk = ''1'', candidates = [''A'', ''B''], num_grades = 3, start_at = 100,
         finish_at = 200, on_invitation_only = True, restrict_results = False\<rparr>,
      data_token = Some ''t'', data_grades_by_candidate = [2]\<rparr>
   = (Inr (Response (Message WRONG_ELECTION_ERROR) HTTP_400_BAD_REQUEST),
      \<lparr>elections =
        [\<lparr>id_pk = ''1'', candidates = [''A'', ''B''], num_grades = 3, start_at = 100,
          finish_at = 200, on_invitation_only = True, restrict_results = False\<rparr>],
       tokens = [\<lparr>token_id = ''t'', token_election = ''1'', email = ''v@x.org'', used = True\<rparr>],
       votes = []\<rparr>)"
  by (simp add: VoteAPIView_create_def create_vote_def perform_create_def
        mentions_match_candidates_def Token_objects_get_def objects_get_def save_token_def)

text \<open>
  Claim C2, amended: for an invitation-only submission that presents a valid, unused token
  before \<open>finish_at\<close>, saving the token as used and inserting the vote are two separate
  writes, the token first. When the insert succeeds the answer is 201 and both changes
  are in the database; when the insert is refused the answer is the error "parameters for
  the election are incorrect", the votes are as before, and the token stays saved as used.
\<close>

theorem vote_write_not_atomic:
  assumes "data_election data = election" and "now < finish_at election"
    and "on_invitation_only election" and "data_token data = Some token"
    and "Token_objects_get db election token = Inr token_object"
    and "\<not> used token_object"
  shows "(integrity election (data_grades_by_candidate data) \<longrightarrow>
            VoteAPIView_create integrity db now data =
              (Inr (Response NoBody HTTP_201_CREATED),
               (save_token (token_object\<lparr>used := True\<rparr>) db)
                 \<lparr>votes := votes db @
                    [\<lparr>vote_election = id_pk election,
                      grades_by_candidate = data_grades_by_candidate data\<rparr>]\<rparr>)) \<and>
         (\<not> integrity election (data_grades_by_candidate data) \<longrightarrow>
            VoteAPIView_create integrity db now data =
              (Inr (Response (Message WRONG_ELECTION_ERROR) HTTP_400_BAD_REQUEST),
               save_token (token_object\<lparr>used := True\<rparr>) db)) \<and>
         votes (save_token (token_object\<lparr>used := True\<rparr>) db) = votes db \<and>
         token_object\<lparr>used := True\<rparr> \<in> set (tokens (save_token (token_object\<lparr>used := True\<rparr>) db))"
  using assms
  by (simp add: create_reaches_write [OF assms] create_vote_cases save_token_votes
        save_token_member)

theorem vote_write_not_atomic_witness:
  "VoteAPIView_create mentions_match_candidates
     \<lparr>elections = [],
      tokens = [\<lparr>token_id = ''k'', token_election = ''7'', email = ''a@b.c'', used = False\<rparr>],
      votes = []\<rparr>
     120
     \<lparr>data_election = \<lparr>id_pk = ''7'', candidates = [''A'', ''B''], num_grades = 3, start_at = 100,
           finish_at = 200, on_invitation_only = True, restrict_results = False\<rparr>,
      data_token = Some ''k'', data_grades_by_candidate = [1, 2, 0]\<rparr>
   = (Inr (Response (Message WRONG_ELECTION_ERROR) HTTP_400_BAD_REQUEST),
      \<lparr>elections = [],
       tokens = [\<lparr>token_id = ''k'', token_election = ''7'', email = ''a@b.c'', used = True\<rparr>],
       votes = []\<rparr>)"
  using vote_write_not_atomic
    [of "\<lparr>data_election = \<lparr>id_pk = ''7'', candidates = [''A'', ''B''], num_grades = 3, start_at = 100,
           finish_at = 200, on_invitation_only = True, restrict_results = False\<rparr>,
      data_token = Some ''k'', data_grades_by_candidate = [1, 2, 0]\<rparr>"
      "\<lparr>id_pk = ''7'', candidates = [''A'', ''B''], num_grades = 3, start_at = 100,
           finish_at = 200, on_invitation_only = True, restrict_results = False\<rparr>" 120 "''k''"
      "\<lparr>elections = [],
      tokens = [\<lparr>token_id = ''k'', token_election = ''7'', email = ''a@b.c'', used = False\<rparr>],
      votes = []\<rparr>"
      "\<lparr>token_id = ''k'', token_election = ''7'', email = ''a@b.c'', used = False\<rparr>"
      mentions_match_candidates]
  by (simp add: Token_objects_get_def objects_get_def save_token_def
        mentions_match_candidates_def)



text \<open>
  Claim C7, as stated, fails. A submission without token to an invitation-only election
  that is finished gets the error "election finished", not the invitation error: the check
  of \<open>finish_at\<close> comes first.
\<close>

theorem finished_election_hides_token_gate:
  "fst (VoteAPIView_create mentions_match_candidates
          \<lparr>elections = [], tokens = [], votes = []\<rparr>
          300
          \<lparr>data_election = \<lparr>id_pk = ''7'', candidates = [''A'', ''B''], num_grades = 3, start_at = 100,
           finish_at = 200, on_invitation_only = True, restrict_results = False\<rparr>,
           data_token = None, data_grades_by_candidate = [2, 1]\<rparr>)
     = Inr (Response (Message ELECTION_FINISHED_ERROR) HTTP_401_UNAUTHORIZED) \<and>
   fst (VoteAPIView_create mentions_match_candidates
          \<lparr>elections = [], tokens = [], votes = []\<rparr>
          300
          \<lparr>data_election = \<lparr>id_pk = ''7'', candidates = [''A'', ''B''], num_grades = 3, start_at = 100,
           finish_at = 200, on_invitation_only = True, restrict_results = False\<rparr>,
           data_token = None, data_grades_by_candidate = [2, 1]\<rparr>)
     \<noteq> Inr (Response (Message INVITATION_ONLY_ERROR) HTTP_400_BAD_REQUEST)"
  by (simp add: VoteAPIView_create_def HTTP_401_UNAUTHORIZED_def HTTP_400_BAD_REQUEST_def)

text \<open>
  Claim C7, amended: for a submission to an invitation-only election that arrives before
  \<open>finish_at\<close>, the answer is the invitation error when no token is supplied, the error
  "wrong token" when no token of that election has the supplied identifier, and the error
  "token already used" when the matching token is used; in the three cases the database is
  unchanged. When the election is not on invitation only, the supplied token has no effect
  on the outcome and the tokens are left as they were.
\<close>

theorem token_gate:
  assumes "data_election data = election"
  shows "(now < finish_at election \<and> on_invitation_only election \<and> data_token data = None \<longrightarrow>
            VoteAPIView_create integrity db now data =
              (Inr (Response (Message INVITATION_ONLY_ERROR) HTTP_400_BAD_REQUEST), db)) \<and>
         (now < finish_at election \<and> on_invitation_only election \<and>
          data_token data = Some token \<and>
          (\<forall>t \<in> set (tokens db). \<not> (token_election t = id_pk election \<and> token_id t = token)) \<longrightarrow>
            VoteAPIView_create integrity db now data =
              (Inr (Response (Message UNKNOWN_TOKEN_ERROR) HTTP_400_BAD_REQUEST), db)) \<and>
         (now < finish_at election \<and> on_invitation_only election \<and>
          data_token data = Some token \<and>
          Token_objects_get db election token = Inr token_object \<and> used token_object \<longrightarrow>
            VoteAPIView_create integrity db now data =
              (Inr (Response (Message USED_TOKEN_ERROR) HTTP_400_BAD_REQUEST), db)) \<and>
         (\<not> on_invitation_only election \<longrightarrow>
            VoteAPIView_create integrity db now (data\<lparr>data_token := other\<rparr>) =
              VoteAPIView_create integrity db now data \<and>
            tokens (snd (VoteAPIView_create integrity db now data)) = tokens db)"
proof -
  have unknown: "(\<forall>t \<in> set (tokens db). \<not> (token_election t = id_pk election \<and> token_id t = token))
      \<Longrightarrow> Token_objects_get db election token = Inl DoesNotExist"
    unfolding Token_objects_get_def objects_get_none by simp
  have open_vote: "\<not> on_invitation_only election \<Longrightarrow>
      VoteAPIView_create integrity db now (data\<lparr>data_token := other\<rparr>) =
        VoteAPIView_create integrity db now data \<and>
      tokens (snd (VoteAPIView_create integrity db now data)) = tokens db"
    using assms by (simp add: VoteAPIView_create_def Let_def create_vote_cases)
  show ?thesis
    using assms unknown open_vote by (auto simp: VoteAPIView_create_def Let_def)
qed

theorem token_gate_witness:
  "VoteAPIView_create mentions_match_candidates
     \<lparr>elections = [],
      tokens = [\<lparr>token_id = ''u'', token_election = ''7'', email = ''g@h.i'', used = True\<rparr>],
      votes = []\<rparr>
     140
     \<lparr>data_election = \<lparr>id_pk = ''7'', candidates = [''A'', ''B''], num_grades = 3, start_at = 100,
           finish_at = 200, on_invitation_only = True, restrict_results = False\<rparr>,
      data_token = Some ''u'', data_grades_by_candidate = [0, 1]\<rparr>
   = (Inr (Response (Message USED_TOKEN_ERROR) HTTP_400_BAD_REQUEST),
      \<lparr>elections = [],
       tokens = [\<lparr>token_id = ''u'', token_election = ''7'', email = ''g@h.i'', used = True\<rparr>],
       votes = []\<rparr>)"
  using token_gate
    [where data = "\<lparr>data_election = \<lparr>id_pk = ''7'', candidates = [''A'', ''B''], num_grades = 3, start_at = 100,
           finish_at = 200, on_invitation_only = True, restrict_results = False\<rparr>,
      data_token = Some ''u'', data_grades_by_candidate = [0, 1]\<rparr>"
      and election = "\<lparr>id_pk = ''7'', candidates = [''A'', ''B''], num_grades = 3, start_at = 100,
           finish_at = 200, on_invitation_only = True, restrict_results = False\<rparr>"
      and now = 140 and token = "''u''" and integrity = mentions_match_candidates
      and db = "\<lparr>elections = [],
      tokens = [\<lparr>token_id = ''u'', token_election = ''7'', email = ''g@h.i'', used = True\<rparr>],
      votes = []\<rparr>"
      and token_object =
        "\<lparr>token_id = ''u'', token_election = ''7'', email = ''g@h.i'', used = True\<rparr>"]
  by (simp add: Token_objects_get_def objects_get_def)

end
